theory Spec2Isabelle
  imports Complex_Main
begin

section \<open>Data model of the chat component (App.jsx)\<close>

text \<open>
  The repository holds one React component in two editions (\<^verbatim>\<open>src/App.jsx\<close> and a
  restyled copy). Their logic (\<^verbatim>\<open>initProgressCallback\<close>, \<^verbatim>\<open>handleSend\<close>,
  \<^verbatim>\<open>handleCancel\<close>) is the same line for line; they differ in two string literals,
  collected in \<open>literals\<close> below, and in a percentage (\<^verbatim>\<open>modelProgress\<close>) that the
  restyled copy shows while loading and that no handler reads; it is left out.

  The component's \<^verbatim>\<open>useState\<close> cells and its \<^verbatim>\<open>abortRef\<close> become one record that
  every handler takes and returns. A handler is assumed to run on the latest committed
  state, so the \<^verbatim>\<open>messages\<close> it closes over and the \<^verbatim>\<open>prev\<close> of a functional update
  are the same list at the moment the handler starts, and a functional update is
  applied at the point where the code issues it.
\<close>

datatype role = System | User | Assistant

record message =
  role :: role
  content :: string

text \<open>
  The engine object as far as the component looks into it:
  \<^verbatim>\<open>engine?.chat?.completions?.create\<close>. The innermost flag says whether \<^verbatim>\<open>create\<close> is
  present.
\<close>

datatype completions = Completions (create: bool)
datatype chat = Chat (completions: "completions option")
datatype engine = Engine (chat: "chat option")

record report =
  report_text :: "string option"
  progress :: "real option"

text \<open>A thrown value, as far as the \<^verbatim>\<open>catch\<close> block reads it: \<^verbatim>\<open>err.name\<close>, \<^verbatim>\<open>err.message\<close>.\<close>

record js_error =
  err_name :: "string option"
  err_message :: "string option"

text \<open>A streamed chunk, read as \<^verbatim>\<open>chunk?.choices?.[0]?.delta?.content\<close>.\<close>

datatype chunk = Chunk (delta_content: "string option")

text \<open>The argument of \<^verbatim>\<open>engine.chat.completions.create\<close>; the signal is the controller's index.\<close>

record request =
  req_messages :: "message list"
  req_stream :: bool
  req_temperature :: real
  req_max_tokens :: nat
  req_signal :: nat

text \<open>
  \<open>controllers\<close> is the heap of \<^verbatim>\<open>AbortController\<close> objects allocated so far, each
  with its \<^verbatim>\<open>aborted\<close> flag; \<open>abortRef\<close> is \<^verbatim>\<open>abortRef.current\<close>, an index into it or
  null. \<open>disposed\<close> is the flag of the initialisation effect's closure.
\<close>

record state =
  engine :: "engine option"
  initStatus :: string
  modelLoaded :: bool
  messages :: "message list"
  input :: string
  loading :: bool
  abortRef :: "nat option"
  controllers :: "bool list"
  disposed :: bool

record literals =
  initial_status :: string
  loading_text :: string

definition App_jsx :: literals where
  "App_jsx = \<lparr>initial_status = ''Initializing...'', loading_text = ''Loading...''\<rparr>"

definition App_restyled :: literals where
  "App_restyled = \<lparr>initial_status = ''Initializing model...'', loading_text = ''Loading model...''\<rparr>"

definition system_message :: message where
  "system_message = \<lparr>role = System, content = ''You are a helpful AI assistant.''\<rparr>"

definition initial_state :: "literals \<Rightarrow> state" where
  "initial_state L =
     \<lparr>engine = None, initStatus = initial_status L, modelLoaded = False,
      messages = [system_message], input = [], loading = False,
      abortRef = None, controllers = [], disposed = False\<rparr>"

section \<open>String helpers\<close>

text \<open>
  \<^verbatim>\<open>String.prototype.trim\<close> on strings of 8-bit characters: tab, line feed, vertical
  tab, form feed, carriage return, space and no-break space are stripped at both ends.
\<close>

definition is_ws :: "char \<Rightarrow> bool" where
  "is_ws c = (c \<in> set [CHR 0x09, CHR 0x0A, CHR 0x0B, CHR 0x0C, CHR 0x0D, CHR 0x20, CHR 0xA0])"

definition trim :: "string \<Rightarrow> string" where
  "trim t = rev (dropWhile is_ws (rev (dropWhile is_ws t)))"

text \<open>\<^verbatim>\<open>x || d\<close> for an optional string: undefined and the empty string are falsy.\<close>

definition or_else :: "string option \<Rightarrow> string \<Rightarrow> string" where
  "or_else x d = (case x of None \<Rightarrow> d | Some t \<Rightarrow> if t = [] then d else t)"

section \<open>Session initializer\<close>

definition initProgressCallback :: "literals \<Rightarrow> report \<Rightarrow> state \<Rightarrow> state" where
  "initProgressCallback L r s =
     (if disposed s then s
      else let s1 = s\<lparr>initStatus := or_else (report_text r) (loading_text L)\<rparr>
           in if progress r = Some 1 then s1\<lparr>modelLoaded := True\<rparr> else s1)"

definition run_reports :: "literals \<Rightarrow> state \<Rightarrow> report list \<Rightarrow> state" where
  "run_reports L s rs = foldl (\<lambda>s r. initProgressCallback L r s) s rs"

text \<open>The continuation after \<^verbatim>\<open>await webllm.CreateMLCEngine\<close>, and the \<^verbatim>\<open>catch\<close> block.\<close>

definition engine_created :: "engine \<Rightarrow> state \<Rightarrow> state" where
  "engine_created e s = (if disposed s then s else s\<lparr>engine := Some e\<rparr>)"

definition init_failed :: "string \<Rightarrow> state \<Rightarrow> state" where
  "init_failed t s = s\<lparr>initStatus := ''Initialization failed: '' @ t\<rparr>"

definition abort :: "nat \<Rightarrow> bool list \<Rightarrow> bool list" where
  "abort k cs = cs[k := True]"

text \<open>The effect's cleanup function.\<close>

definition teardown :: "state \<Rightarrow> state" where
  "teardown s =
     (let s1 = s\<lparr>disposed := True\<rparr>
      in case abortRef s of None \<Rightarrow> s1
         | Some k \<Rightarrow> s1\<lparr>controllers := abort k (controllers s)\<rparr>)"

section \<open>Chat session controller\<close>

definition chat_create_available :: "engine option \<Rightarrow> bool" where
  "chat_create_available eo =
     (case eo of None \<Rightarrow> False
      | Some e \<Rightarrow> (case chat e of None \<Rightarrow> False
         | Some c \<Rightarrow> (case completions c of None \<Rightarrow> False
            | Some k \<Rightarrow> create k)))"

definition unavailable_message :: message where
  "unavailable_message = \<lparr>role = Assistant, content = ''Chat API not available in this build.''\<rparr>"

definition is_typing_sentinel :: "message \<Rightarrow> bool" where
  "is_typing_sentinel m = (role m = Assistant \<and> trim (content m) = ''Typing...'')"

datatype send_result = Rejected | CapabilityMissing | Requested request

text \<open>
  \<^verbatim>\<open>handleSend\<close> from its first line to the call of \<^verbatim>\<open>create\<close>: the guard, the capability
  check, and the synchronous updates. The result says whether a request was issued.
\<close>

definition handleSend_start :: "state \<Rightarrow> send_result \<times> state" where
  "handleSend_start s =
     (if trim (input s) = [] \<or> engine s = None \<or> loading s then (Rejected, s)
      else if \<not> chat_create_available (engine s) then
        (CapabilityMissing, s\<lparr>messages := messages s @ [unavailable_message]\<rparr>)
      else
        let userMsg = \<lparr>role = User, content = input s\<rparr>;
            cs = (case abortRef s of None \<Rightarrow> controllers s
                  | Some k \<Rightarrow> abort k (controllers s));
            controller = length cs;
            currentMessages =
              filter (\<lambda>m. role m \<noteq> Assistant \<or> trim (content m) \<noteq> ''Typing...'') (messages s)
              @ [userMsg]
        in (Requested \<lparr>req_messages = currentMessages, req_stream = True,
                        req_temperature = 7 / 10, req_max_tokens = 512,
                        req_signal = controller\<rparr>,
            s\<lparr>input := [], loading := True, abortRef := Some controller,
              controllers := cs @ [False], messages := messages s @ [userMsg]\<rparr>))"

text \<open>The functional update of \<^verbatim>\<open>setMessages\<close> inside the streaming loop.\<close>

definition apply_delta :: "string \<Rightarrow> message list \<Rightarrow> message list" where
  "apply_delta assistantAccum prev =
     (if length prev > 0 \<and> role (last prev) = Assistant
      then butlast prev @ [\<lparr>role = Assistant, content = assistantAccum\<rparr>]
      else prev @ [\<lparr>role = Assistant,
                    content = (if assistantAccum = [] then '' '' else assistantAccum)\<rparr>])"

definition piece_of :: "chunk \<Rightarrow> string" where
  "piece_of c = or_else (delta_content c) []"

text \<open>One iteration of \<^verbatim>\<open>for await (const chunk of stream)\<close>, on the accumulator and the state.\<close>

definition stream_chunk :: "chunk \<Rightarrow> string \<times> state \<Rightarrow> string \<times> state" where
  "stream_chunk c p =
     (let piece = piece_of c;
          assistantAccum = (if piece \<noteq> [] then fst p @ piece else fst p)
      in (assistantAccum, (snd p)\<lparr>messages := apply_delta assistantAccum (messages (snd p))\<rparr>))"

definition consume :: "chunk list \<Rightarrow> string \<times> state \<Rightarrow> string \<times> state" where
  "consume cs p = foldl (\<lambda>p c. stream_chunk c p) p cs"

definition error_message :: "js_error \<Rightarrow> message" where
  "error_message err =
     \<lparr>role = Assistant, content = ''Error: '' @ or_else (err_message err) ''Unknown error''\<rparr>"

text \<open>
  How the \<^verbatim>\<open>try\<close> block ends: the loop runs to the end of the stream (\<open>None\<close>) or
  something is thrown; then \<^verbatim>\<open>catch\<close> and \<^verbatim>\<open>finally\<close>.
\<close>

definition handleSend_end :: "js_error option \<Rightarrow> state \<Rightarrow> state" where
  "handleSend_end outcome s =
     (let s1 = (case outcome of None \<Rightarrow> s
                | Some err \<Rightarrow>
                    if err_name err = Some ''AbortError'' then s
                    else s\<lparr>messages := messages s @ [error_message err]\<rparr>)
      in s1\<lparr>loading := False\<rparr>)"

text \<open>
  What the engine does with a request: the chunks it delivers and how the stream ends.
  A \<^verbatim>\<open>create\<close> that throws is a response with no chunk and an error.
\<close>

record response =
  chunks :: "chunk list"
  ending :: "js_error option"

text \<open>A whole call of \<^verbatim>\<open>handleSend\<close> with no other handler running in between.\<close>

definition handleSend :: "(request \<Rightarrow> response) \<Rightarrow> state \<Rightarrow> request option \<times> state" where
  "handleSend respond s =
     (case handleSend_start s of
        (Requested rq, s1) \<Rightarrow>
          (Some rq, handleSend_end (ending (respond rq)) (snd (consume (chunks (respond rq)) ([], s1))))
      | (_, s1) \<Rightarrow> (None, s1))"

definition handleCancel :: "state \<Rightarrow> state" where
  "handleCancel s =
     (case abortRef s of None \<Rightarrow> s
      | Some k \<Rightarrow> s\<lparr>controllers := abort k (controllers s), abortRef := None, loading := False\<rparr>)"

section \<open>The component as an event-driven machine\<close>

text \<open>
  Handlers and stream deliveries interleave on one thread. \<open>tasks\<close> holds, for every
  call of \<^verbatim>\<open>handleSend\<close> that issued a request, its local \<^verbatim>\<open>assistantAccum\<close>, or
  \<open>None\<close> once that call has returned.
\<close>

datatype event =
    Report report
  | EngineCreated engine
  | InitFailed string
  | Teardown
  | InputChange string
  | Send
  | StreamChunk nat chunk
  | StreamEnd nat "js_error option"
  | Cancel

record machine =
  app :: state
  tasks :: "string option list"

definition task_accum :: "machine \<Rightarrow> nat \<Rightarrow> string option" where
  "task_accum m k = (if k < length (tasks m) then tasks m ! k else None)"

definition step :: "literals \<Rightarrow> machine \<Rightarrow> event \<Rightarrow> machine" where
  "step L m ev =
     (case ev of
        Report r \<Rightarrow> m\<lparr>app := initProgressCallback L r (app m)\<rparr>
      | EngineCreated e \<Rightarrow> m\<lparr>app := engine_created e (app m)\<rparr>
      | InitFailed t \<Rightarrow> m\<lparr>app := init_failed t (app m)\<rparr>
      | Teardown \<Rightarrow> m\<lparr>app := teardown (app m)\<rparr>
      | InputChange t \<Rightarrow> m\<lparr>app := (app m)\<lparr>input := t\<rparr>\<rparr>
      | Send \<Rightarrow>
          (case handleSend_start (app m) of
             (Requested rq, s1) \<Rightarrow> \<lparr>app = s1, tasks = tasks m @ [Some []]\<rparr>
           | (_, s1) \<Rightarrow> m\<lparr>app := s1\<rparr>)
      | StreamChunk k c \<Rightarrow>
          (case task_accum m k of None \<Rightarrow> m
           | Some acc \<Rightarrow>
               \<lparr>app = snd (stream_chunk c (acc, app m)),
                tasks = (tasks m)[k := Some (fst (stream_chunk c (acc, app m)))]\<rparr>)
      | StreamEnd k outcome \<Rightarrow>
          (case task_accum m k of None \<Rightarrow> m
           | Some acc \<Rightarrow> \<lparr>app = handleSend_end outcome (app m), tasks = (tasks m)[k := None]\<rparr>)
      | Cancel \<Rightarrow> m\<lparr>app := handleCancel (app m)\<rparr>)"

definition run :: "literals \<Rightarrow> event list \<Rightarrow> machine" where
  "run L evs = foldl (step L) \<lparr>app = initial_state L, tasks = []\<rparr> evs"

section \<open>Properties stated as predicates, and example states\<close>

text \<open>The transcript starts with the system prompt and holds no other system message.\<close>

definition one_leading_system :: "message list \<Rightarrow> bool" where
  "one_leading_system ms =
     (case ms of [] \<Rightarrow> False
      | m # rest \<Rightarrow> m = system_message \<and> filter (\<lambda>x. role x = System) rest = [])"

definition full_engine :: engine where
  "full_engine = Engine (Some (Chat (Some (Completions True))))"

definition bare_engine :: engine where
  "bare_engine = Engine (Some (Chat None))"

definition ready_hello :: state where
  "ready_hello =
     (initial_state App_jsx)\<lparr>engine := Some full_engine, modelLoaded := True, input := ''Hello''\<rparr>"

definition bare_hello :: state where
  "bare_hello =
     (initial_state App_jsx)\<lparr>engine := Some bare_engine, modelLoaded := True, input := ''Hello''\<rparr>"

text \<open>The state in which \<^verbatim>\<open>create\<close> is called for the input "Hello".\<close>

definition hello_sent :: state where
  "hello_sent = snd (handleSend_start ready_hello)"

text \<open>A transcript that holds two typing placeholders among ordinary entries.\<close>

definition with_placeholders :: state where
  "with_placeholders =
     ready_hello\<lparr>messages :=
       [system_message, \<lparr>role = User, content = ''Hi''\<rparr>,
        \<lparr>role = Assistant, content = ''Typing...''\<rparr>,
        \<lparr>role = Assistant, content = ''Yo''\<rparr>,
        \<lparr>role = User, content = ''Typing...''\<rparr>,
        \<lparr>role = Assistant, content = '' Typing... ''\<rparr>]\<rparr>"

text \<open>A generation is running and the input field holds new text.\<close>

definition generating_example :: machine where
  "generating_example =
     run App_jsx [EngineCreated full_engine, InputChange ''Hello'', Send, InputChange ''again'']"

definition idle_example :: machine where
  "idle_example =
     run App_jsx [EngineCreated full_engine, InputChange ''Hello'', Send,
                  StreamChunk 0 (Chunk (Some ''Hi'')), StreamEnd 0 None, InputChange ''More'']"

definition three_reports :: "report list" where
  "three_reports =
     [\<lparr>report_text = Some ''Fetching'', progress = Some 0\<rparr>,
      \<lparr>report_text = Some ''Halfway'', progress = Some (1 / 2)\<rparr>,
      \<lparr>report_text = Some ''Done'', progress = Some 1\<rparr>]"

text \<open>An engine that answers every request with the deltas "Hi", " there", "!".\<close>

definition hi_there_chunks :: "chunk list" where
  "hi_there_chunks = [Chunk (Some ''Hi''), Chunk (Some '' there''), Chunk (Some ''!'')]"

definition hi_there :: "request \<Rightarrow> response" where
  "hi_there rq = \<lparr>chunks = hi_there_chunks, ending = None\<rparr>"

definition abort_error :: js_error where
  "abort_error = \<lparr>err_name = Some ''AbortError'', err_message = Some ''aborted''\<rparr>"

definition type_error :: js_error where
  "type_error = \<lparr>err_name = Some ''TypeError'', err_message = Some ''device lost''\<rparr>"

section \<open>Evaluation lemmas\<close>

lemmas handler_defs =
  handleSend_def handleSend_start_def handleSend_end_def handleCancel_def stream_chunk_def
  apply_delta_def consume_def piece_of_def or_else_def error_message_def
  chat_create_available_def abort_def unavailable_message_def is_typing_sentinel_def
  trim_def is_ws_def

lemmas example_defs =
  ready_hello_def bare_hello_def initial_state_def App_jsx_def full_engine_def bare_engine_def
  system_message_def Let_def

lemma hello_sent_value:
  "hello_sent =
     \<lparr>engine = Some full_engine, initStatus = ''Initializing...'', modelLoaded = True,
      messages = [system_message, \<lparr>role = User, content = ''Hello''\<rparr>], input = [],
      loading = True, abortRef = Some 0, controllers = [False], disposed = False\<rparr>"
  by (simp add: hello_sent_def handler_defs example_defs)

lemma generating_example_value:
  "generating_example =
    \<lparr>app = \<lparr>engine = Some full_engine, initStatus = ''Initializing...'', modelLoaded = False,
            messages = [system_message, \<lparr>role = User, content = ''Hello''\<rparr>], input = ''again'',
            loading = True, abortRef = Some 0, controllers = [False], disposed = False\<rparr>,
     tasks = [Some []]\<rparr>"
  by (simp add: generating_example_def run_def step_def engine_created_def handler_defs example_defs)

lemma idle_example_value:
  "idle_example =
    \<lparr>app = \<lparr>engine = Some full_engine, initStatus = ''Initializing...'', modelLoaded = False,
            messages = [system_message, \<lparr>role = User, content = ''Hello''\<rparr>,
                        \<lparr>role = Assistant, content = ''Hi''\<rparr>],
            input = ''More'', loading = False, abortRef = Some 0, controllers = [False],
            disposed = False\<rparr>,
     tasks = [None]\<rparr>"
  by (simp add: idle_example_def run_def step_def task_accum_def engine_created_def
      handler_defs example_defs)

section \<open>The capability check\<close>

lemma capability_path:
  "fst (handleSend_start s) = CapabilityMissing \<longleftrightarrow>
     (trim (input s) \<noteq> [] \<and> engine s \<noteq> None \<and> \<not> loading s
      \<and> \<not> chat_create_available (engine s))"
  by (simp add: handleSend_start_def Let_def)

lemma capability_needs_engine: "chat_create_available eo \<Longrightarrow> eo \<noteq> None"
  by (auto simp add: chat_create_available_def split: option.splits)

text \<open>
  The hypothesis \<open>\<not> loading s\<close> of the theorems below costs nothing when the engine has
  no \<^verbatim>\<open>create\<close>: \<open>loading\<close> is set only after the capability check has passed, so
  as long as every engine handed to the component lacks the capability, the component
  is never loading.
\<close>

lemma step_without_capability:
  assumes "\<not> chat_create_available (engine (app m))" and "\<not> loading (app m)"
    and "\<forall>e. ev = EngineCreated e \<longrightarrow> \<not> chat_create_available (Some e)"
  shows "\<not> chat_create_available (engine (app (step L m ev)))
       \<and> \<not> loading (app (step L m ev))"
  using assms
  by (cases ev)
     (auto simp add: step_def initProgressCallback_def engine_created_def init_failed_def
        teardown_def handleSend_start_def handleSend_end_def handleCancel_def stream_chunk_def
        Let_def split: option.splits)

lemma never_loading_without_capability:
  assumes "\<forall>e. EngineCreated e \<in> set evs \<longrightarrow> \<not> chat_create_available (Some e)"
  shows "\<not> chat_create_available (engine (app (run L evs))) \<and> \<not> loading (app (run L evs))"
  using assms
proof (induction evs rule: rev_induct)
  case Nil
  show ?case by (simp add: run_def initial_state_def chat_create_available_def)
next
  case (snoc ev evs)
  have "run L (evs @ [ev]) = step L (run L evs) ev"
    by (simp add: run_def)
  moreover have "\<not> chat_create_available (engine (app (run L evs))) \<and> \<not> loading (app (run L evs))"
    using snoc by simp
  moreover have "\<forall>e. ev = EngineCreated e \<longrightarrow> \<not> chat_create_available (Some e)"
    using snoc.prems by simp
  ultimately show ?case
    using step_without_capability [of "run L evs" ev L] by simp
qed

text \<open>
  C5. The engine is there but has no \<^verbatim>\<open>chat.completions.create\<close>, and the input is not
  blank. Then \<^verbatim>\<open>handleSend\<close> appends exactly one assistant message, the fixed text "Chat
  API not available in this build.", to the transcript; it issues no request, whatever the
  engine would have answered (the result holds no request and does not depend on
  \<open>respond\<close>); and the next attempt, with the same or any other non-blank input, is
  not turned away by the guard: it reaches the capability check again.
\<close>

theorem capability_missing_message:
  assumes "engine s = Some e" and "\<not> chat_create_available (Some e)"
    and "trim (input s) \<noteq> []" and "\<not> loading s"
  shows "handleSend respond s = (None, s\<lparr>messages := messages s @ [unavailable_message]\<rparr>)
       \<and> role unavailable_message = Assistant
       \<and> content unavailable_message = ''Chat API not available in this build.''
       \<and> fst (handleSend_start (snd (handleSend respond s))) = CapabilityMissing
       \<and> (trim t \<noteq> [] \<longrightarrow>
            fst (handleSend_start ((snd (handleSend respond s))\<lparr>input := t\<rparr>)) = CapabilityMissing)"
  using assms by (simp add: handleSend_def handleSend_start_def unavailable_message_def)

theorem capability_missing_message_witness:
  "engine bare_hello = Some bare_engine \<and> \<not> chat_create_available (Some bare_engine)
   \<and> trim (input bare_hello) \<noteq> [] \<and> \<not> loading bare_hello
   \<and> fst (handleSend hi_there bare_hello) = None
   \<and> messages (snd (handleSend hi_there bare_hello)) = [system_message, unavailable_message]
   \<and> fst (handleSend_start ((snd (handleSend hi_there bare_hello))\<lparr>input := ''Hello again''\<rparr>))
       = CapabilityMissing"
proof -
  have h: "engine bare_hello = Some bare_engine" "\<not> chat_create_available (Some bare_engine)"
    "trim (input bare_hello) \<noteq> []" "\<not> loading bare_hello"
    by (simp_all add: example_defs chat_create_available_def trim_def is_ws_def)
  have t: "trim ''Hello again'' \<noteq> []"
    by (simp add: trim_def is_ws_def)
  from capability_missing_message [OF h, of hi_there "''Hello again''"] h t show ?thesis
    by (auto simp add: bare_hello_def initial_state_def)
qed

text \<open>
  C10. Whenever \<^verbatim>\<open>handleSend\<close> takes the capability-missing branch, the state it leaves
  is the old state with the unavailability message appended to the transcript and nothing
  else changed: no user message is appended (the one new entry has role assistant), the
  input field keeps its text, and \<open>loading\<close> is false before and after.
\<close>

theorem capability_missing_frame:
  assumes "fst (handleSend_start s) = CapabilityMissing"
  shows "snd (handleSend respond s) = s\<lparr>messages := messages s @ [unavailable_message]\<rparr>
       \<and> role unavailable_message \<noteq> User
       \<and> input (snd (handleSend respond s)) = input s
       \<and> \<not> loading s \<and> \<not> loading (snd (handleSend respond s))
       \<and> abortRef (snd (handleSend respond s)) = abortRef s
       \<and> controllers (snd (handleSend respond s)) = controllers s"
  using assms
  by (simp add: handleSend_def handleSend_start_def Let_def unavailable_message_def
      split: if_splits)

theorem capability_missing_frame_witness:
  "fst (handleSend_start bare_hello) = CapabilityMissing
   \<and> messages (snd (handleSend hi_there bare_hello)) = [system_message, unavailable_message]
   \<and> input (snd (handleSend hi_there bare_hello)) = ''Hello''
   \<and> \<not> loading (snd (handleSend hi_there bare_hello))"
proof -
  have h: "fst (handleSend_start bare_hello) = CapabilityMissing"
    by (simp add: capability_path example_defs chat_create_available_def trim_def is_ws_def)
  from capability_missing_frame [OF h, of hi_there] h show ?thesis
    by (simp add: bare_hello_def initial_state_def)
qed

section \<open>Accepted sends\<close>

text \<open>
  C7. The input is not blank, the engine offers \<^verbatim>\<open>chat.completions.create\<close>, and no
  generation is running. Then \<^verbatim>\<open>handleSend\<close> issues a request, and in the state in which
  it does so the transcript is the old transcript followed by exactly one new entry: a
  user message whose content is the input as typed.
\<close>

theorem send_appends_user_message:
  assumes "trim (input s) \<noteq> []" and "chat_create_available (engine s)" and "\<not> loading s"
  shows "\<exists>rq. fst (handleSend_start s) = Requested rq
           \<and> messages (snd (handleSend_start s)) =
               messages s @ [\<lparr>role = User, content = input s\<rparr>]"
  using assms capability_needs_engine [of "engine s"]
  by (simp add: handleSend_start_def Let_def)

theorem send_appends_user_message_witness:
  "trim (input ready_hello) \<noteq> [] \<and> chat_create_available (engine ready_hello)
   \<and> \<not> loading ready_hello
   \<and> (\<exists>rq. fst (handleSend_start ready_hello) = Requested rq)
   \<and> messages (snd (handleSend_start ready_hello)) =
       [system_message, \<lparr>role = User, content = ''Hello''\<rparr>]"
proof -
  have h: "trim (input ready_hello) \<noteq> []" "chat_create_available (engine ready_hello)"
    "\<not> loading ready_hello"
    by (simp_all add: example_defs chat_create_available_def trim_def is_ws_def)
  have m: "messages ready_hello = [system_message]" "input ready_hello = ''Hello''"
    by (simp_all add: ready_hello_def initial_state_def)
  from send_appends_user_message [OF h] h m show ?thesis
    by auto
qed

text \<open>
  C6. The request that \<^verbatim>\<open>handleSend\<close> issues carries, in transcript order, every entry
  of the transcript that is not a typing placeholder (an assistant entry whose trimmed
  content is "Typing..."), followed by the new user message. That is the transcript as it
  stands after the append, with the placeholders filtered out; no other entry is left out.
\<close>

theorem request_history:
  assumes "fst (handleSend_start s) = Requested rq"
  shows "req_messages rq =
           filter (\<lambda>m. \<not> is_typing_sentinel m) (messages s) @ [\<lparr>role = User, content = input s\<rparr>]
       \<and> req_messages rq = filter (\<lambda>m. \<not> is_typing_sentinel m) (messages (snd (handleSend_start s)))
       \<and> (\<forall>m \<in> set (messages s). \<not> is_typing_sentinel m \<longrightarrow> m \<in> set (req_messages rq))
       \<and> (\<forall>m \<in> set (req_messages rq). \<not> is_typing_sentinel m)"
  using assms
  by (auto simp add: handleSend_start_def Let_def is_typing_sentinel_def split: if_splits)

theorem request_history_witness:
  "fst (handleSend_start with_placeholders) =
     Requested \<lparr>req_messages =
                  [system_message, \<lparr>role = User, content = ''Hi''\<rparr>,
                   \<lparr>role = Assistant, content = ''Yo''\<rparr>,
                   \<lparr>role = User, content = ''Typing...''\<rparr>,
                   \<lparr>role = User, content = ''Hello''\<rparr>],
                req_stream = True, req_temperature = 7 / 10, req_max_tokens = 512,
                req_signal = 0\<rparr>
   \<and> filter (\<lambda>m. \<not> is_typing_sentinel m) (messages with_placeholders)
         @ [\<lparr>role = User, content = input with_placeholders\<rparr>] =
       [system_message, \<lparr>role = User, content = ''Hi''\<rparr>,
        \<lparr>role = Assistant, content = ''Yo''\<rparr>,
        \<lparr>role = User, content = ''Typing...''\<rparr>,
        \<lparr>role = User, content = ''Hello''\<rparr>]"
proof -
  have h: "fst (handleSend_start with_placeholders) =
     Requested \<lparr>req_messages =
                  [system_message, \<lparr>role = User, content = ''Hi''\<rparr>,
                   \<lparr>role = Assistant, content = ''Yo''\<rparr>,
                   \<lparr>role = User, content = ''Typing...''\<rparr>,
                   \<lparr>role = User, content = ''Hello''\<rparr>],
                req_stream = True, req_temperature = 7 / 10, req_max_tokens = 512,
                req_signal = 0\<rparr>"
    by (simp add: with_placeholders_def handler_defs example_defs)
  from request_history [OF h] h show ?thesis
    by simp
qed

section \<open>Cancelling\<close>

text \<open>
  C8. When no generation is running (\<open>loading\<close> is false), \<^verbatim>\<open>handleCancel\<close> leaves the
  transcript, the loading flag and the status text as they are, and likewise the input,
  the engine and the ready flag. It has no failing path: it returns a state on every
  input. The one thing it may touch is \<^verbatim>\<open>abortRef\<close>, which still points to the
  controller of the last finished generation and is reset to null.
\<close>

theorem cancel_idle_noop:
  assumes "\<not> loading s"
  shows "messages (handleCancel s) = messages s \<and> loading (handleCancel s) = loading s
       \<and> initStatus (handleCancel s) = initStatus s \<and> input (handleCancel s) = input s
       \<and> engine (handleCancel s) = engine s \<and> modelLoaded (handleCancel s) = modelLoaded s
       \<and> (abortRef s = None \<longrightarrow> handleCancel s = s)"
  using assms by (simp add: handleCancel_def split: option.splits)

theorem cancel_idle_noop_witness:
  "\<not> loading (app idle_example)
   \<and> messages (handleCancel (app idle_example)) =
       [system_message, \<lparr>role = User, content = ''Hello''\<rparr>, \<lparr>role = Assistant, content = ''Hi''\<rparr>]
   \<and> \<not> loading (handleCancel (app idle_example))
   \<and> initStatus (handleCancel (app idle_example)) = ''Initializing...''
   \<and> abortRef (initial_state App_jsx) = None
   \<and> handleCancel (initial_state App_jsx) = initial_state App_jsx"
proof -
  have h: "\<not> loading (app idle_example)" "\<not> loading (initial_state App_jsx)"
    by (simp_all add: idle_example_value initial_state_def)
  from cancel_idle_noop [OF h(1)] cancel_idle_noop [OF h(2)] h show ?thesis
    by (simp add: idle_example_value initial_state_def)
qed

section \<open>How a generation ends\<close>

text \<open>
  C3. When the \<^verbatim>\<open>try\<close> block is left by a thrown value named \<^verbatim>\<open>AbortError\<close>, the
  transcript stays as it is and \<open>loading\<close> becomes false; this also holds for the whole
  path of a cancel followed by the abort reaching the loop. When it is left by any other
  thrown value, exactly one entry is appended: an assistant message "Error: " followed by
  the error's message ("Unknown error" when the error has none), and \<open>loading\<close> becomes
  false. Nothing else changes, so the engine is kept and the next non-blank input is
  accepted and sent.
\<close>

theorem stream_termination:
  "(err_name err = Some ''AbortError'' \<longrightarrow> handleSend_end (Some err) s = s\<lparr>loading := False\<rparr>)
 \<and> (err_name err = Some ''AbortError'' \<longrightarrow>
       messages (handleSend_end (Some err) (handleCancel s)) = messages s
       \<and> \<not> loading (handleSend_end (Some err) (handleCancel s)))
 \<and> (err_name err \<noteq> Some ''AbortError'' \<longrightarrow>
       handleSend_end (Some err) s =
         s\<lparr>messages := messages s @
              [\<lparr>role = Assistant,
                content = ''Error: '' @ or_else (err_message err) ''Unknown error''\<rparr>],
           loading := False\<rparr>)
 \<and> (err_message err = Some t \<and> t \<noteq> [] \<longrightarrow> or_else (err_message err) ''Unknown error'' = t)
 \<and> (chat_create_available (engine s) \<and> trim u \<noteq> [] \<longrightarrow>
       (\<exists>rq. fst (handleSend_start ((handleSend_end (Some err) s)\<lparr>input := u\<rparr>)) = Requested rq))"
  using capability_needs_engine [of "engine s"]
  by (auto simp add: handleSend_end_def error_message_def or_else_def handleSend_start_def
      Let_def handleCancel_def split: option.splits)

theorem stream_termination_witness:
  "err_name abort_error = Some ''AbortError''
   \<and> messages (handleSend_end (Some abort_error) hello_sent) =
       [system_message, \<lparr>role = User, content = ''Hello''\<rparr>]
   \<and> \<not> loading (handleSend_end (Some abort_error) hello_sent)
   \<and> err_name type_error \<noteq> Some ''AbortError''
   \<and> messages (handleSend_end (Some type_error) hello_sent) =
       [system_message, \<lparr>role = User, content = ''Hello''\<rparr>,
        \<lparr>role = Assistant, content = ''Error: device lost''\<rparr>]
   \<and> \<not> loading (handleSend_end (Some type_error) hello_sent)
   \<and> (\<exists>rq. fst (handleSend_start ((handleSend_end (Some type_error) hello_sent)\<lparr>input := ''Hello''\<rparr>))
         = Requested rq)"
proof -
  have a: "err_name abort_error = Some ''AbortError''"
    by (simp add: abort_error_def)
  have b: "err_name type_error \<noteq> Some ''AbortError''"
    "err_message type_error = Some ''device lost''"
    by (simp_all add: type_error_def)
  have c: "chat_create_available (engine hello_sent)" "trim ''Hello'' \<noteq> []"
    by (simp_all add: hello_sent_value full_engine_def chat_create_available_def trim_def is_ws_def)
  from stream_termination [of abort_error hello_sent t u]
    stream_termination [of type_error hello_sent "''device lost''" "''Hello''"] a b c
  show ?thesis
    by (auto simp add: hello_sent_value or_else_def)
qed

section \<open>Initialisation progress\<close>

lemma run_reports_snoc:
  "run_reports L s (rs @ [r]) = initProgressCallback L r (run_reports L s rs)"
  by (simp add: run_reports_def)

lemma run_reports_disposed: "disposed (run_reports L s rs) = disposed s"
  by (induction rs rule: rev_induct)
     (simp_all add: run_reports_def initProgressCallback_def Let_def)

lemma run_reports_ready:
  "\<not> disposed s \<Longrightarrow>
   modelLoaded (run_reports L s rs) = (modelLoaded s \<or> (\<exists>r \<in> set rs. progress r = Some 1))"
proof (induction rs rule: rev_induct)
  case Nil
  then show ?case by (simp add: run_reports_def)
next
  case (snoc r rs)
  then show ?case
    using run_reports_disposed [of L s rs]
    by (auto simp add: run_reports_snoc initProgressCallback_def Let_def)
qed

lemma run_reports_status:
  "\<not> disposed s \<Longrightarrow>
   initStatus (run_reports L s (rs @ [r])) = or_else (report_text r) (loading_text L)"
  using run_reports_disposed [of L s rs]
  by (simp add: run_reports_snoc initProgressCallback_def Let_def)

text \<open>
  C4. The component is mounted and not yet ready, and the reports \<open>rs\<close> arrive in
  order. After the first \<open>n\<close> of them the ready flag is true exactly if one of these
  \<open>n\<close> reports had progress 1; so it turns true at the first such report and at no
  other moment. Once true it stays true under all later reports. After each report, before
  and after that moment, the status text is that report's text (the edition's loading
  text when the report has no text).
\<close>

theorem ready_flag_progress:
  assumes "\<not> disposed s" and "\<not> modelLoaded s"
  shows "modelLoaded (run_reports L s (take n rs)) = (\<exists>r \<in> set (take n rs). progress r = Some 1)
       \<and> (modelLoaded (run_reports L s (take n rs)) \<longrightarrow> modelLoaded (run_reports L s (take (n + k) rs)))
       \<and> (n < length rs \<longrightarrow>
            initStatus (run_reports L s (take (Suc n) rs)) =
              or_else (report_text (rs ! n)) (loading_text L))"
proof (intro conjI impI)
  show "modelLoaded (run_reports L s (take n rs)) = (\<exists>r \<in> set (take n rs). progress r = Some 1)"
    using assms by (simp add: run_reports_ready)
next
  assume "modelLoaded (run_reports L s (take n rs))"
  then obtain r where "r \<in> set (take n rs)" "progress r = Some 1"
    using assms by (auto simp add: run_reports_ready)
  moreover have "set (take n rs) \<subseteq> set (take (n + k) rs)"
    by (rule set_take_subset_set_take) simp
  ultimately show "modelLoaded (run_reports L s (take (n + k) rs))"
    using assms by (auto simp add: run_reports_ready)
next
  assume "n < length rs"
  then have "take (Suc n) rs = take n rs @ [rs ! n]"
    by (rule take_Suc_conv_app_nth)
  then show "initStatus (run_reports L s (take (Suc n) rs)) =
      or_else (report_text (rs ! n)) (loading_text L)"
    using assms by (simp add: run_reports_status)
qed

theorem ready_flag_progress_witness:
  "\<not> disposed (initial_state App_jsx) \<and> \<not> modelLoaded (initial_state App_jsx)
   \<and> \<not> modelLoaded (run_reports App_jsx (initial_state App_jsx) (take 2 three_reports))
   \<and> initStatus (run_reports App_jsx (initial_state App_jsx) (take 2 three_reports)) = ''Halfway''
   \<and> modelLoaded (run_reports App_jsx (initial_state App_jsx) (take 3 three_reports))"
proof -
  have h: "\<not> disposed (initial_state App_jsx)" "\<not> modelLoaded (initial_state App_jsx)"
    by (simp_all add: initial_state_def)
  have two: "take 2 three_reports =
      [\<lparr>report_text = Some ''Fetching'', progress = Some 0\<rparr>,
       \<lparr>report_text = Some ''Halfway'', progress = Some (1 / 2)\<rparr>]"
    and three: "take 3 three_reports = three_reports"
    and one: "Suc 1 = 2" "(1::nat) < length three_reports"
      "report_text (three_reports ! 1) = Some ''Halfway''"
    by (simp_all add: three_reports_def)
  have "\<not> modelLoaded (run_reports App_jsx (initial_state App_jsx) (take 2 three_reports))"
    using ready_flag_progress [OF h, of App_jsx 2 three_reports 0] by (simp add: two)
  moreover have "initStatus (run_reports App_jsx (initial_state App_jsx) (take 2 three_reports)) = ''Halfway''"
    using ready_flag_progress [OF h, of App_jsx 1 three_reports 0] one
    by (simp add: or_else_def numeral_2_eq_2)
  moreover have "modelLoaded (run_reports App_jsx (initial_state App_jsx) (take 3 three_reports))"
    using ready_flag_progress [OF h, of App_jsx 3 three_reports 0]
    by (simp add: three) (simp add: three_reports_def)
  ultimately show ?thesis using h by simp
qed

section \<open>The streaming loop\<close>

lemma piece_of_Chunk [simp]: "piece_of (Chunk None) = []" "piece_of (Chunk (Some t)) = t"
  by (simp_all add: piece_of_def or_else_def)

lemma consume_Nil [simp]: "consume [] p = p"
  by (simp add: consume_def)

lemma consume_Cons [simp]: "consume (c # cs) p = consume cs (stream_chunk c p)"
  by (simp add: consume_def)

lemma stream_chunk_accum: "fst (stream_chunk c (acc, s)) = acc @ piece_of c"
  by (simp add: stream_chunk_def Let_def)

lemma stream_chunk_pair:
  "stream_chunk c (acc, s) = (acc @ piece_of c, snd (stream_chunk c (acc, s)))"
  using stream_chunk_accum [of c acc s] by (metis prod.collapse)

lemma consume_accum: "fst (consume cs (acc, s)) = acc @ concat (map piece_of cs)"
proof (induction cs arbitrary: acc s)
  case Nil
  show ?case by simp
next
  case (Cons c cs)
  show ?case
    using Cons.IH [of "acc @ piece_of c" "snd (stream_chunk c (acc, s))"]
      stream_chunk_pair [of c acc s]
    by simp
qed

text \<open>A chunk that finds an assistant entry at the end overwrites it.\<close>

lemma stream_chunk_replace:
  "messages s = pre @ [\<lparr>role = Assistant, content = old\<rparr>] \<Longrightarrow>
   messages (snd (stream_chunk c (acc, s))) =
     pre @ [\<lparr>role = Assistant, content = acc @ piece_of c\<rparr>]"
  by (simp add: stream_chunk_def Let_def apply_delta_def)

text \<open>A chunk that finds any other entry at the end opens the assistant entry.\<close>

lemma stream_chunk_append:
  "messages s = pre @ [m] \<Longrightarrow> role m \<noteq> Assistant \<Longrightarrow>
   messages (snd (stream_chunk c (acc, s))) =
     pre @ [m, \<lparr>role = Assistant,
                content = (if acc @ piece_of c = [] then '' '' else acc @ piece_of c)\<rparr>]"
  by (simp add: stream_chunk_def Let_def apply_delta_def)

lemma consume_replace:
  "messages s = pre @ [\<lparr>role = Assistant, content = old\<rparr>] \<Longrightarrow>
   messages (snd (consume cs (acc, s))) =
     pre @ [\<lparr>role = Assistant,
             content = (if cs = [] then old else acc @ concat (map piece_of cs))\<rparr>]"
proof (induction cs arbitrary: acc s old)
  case Nil
  then show ?case by simp
next
  case (Cons c cs)
  have "messages (snd (stream_chunk c (acc, s))) =
          pre @ [\<lparr>role = Assistant, content = acc @ piece_of c\<rparr>]"
    using Cons.prems by (rule stream_chunk_replace)
  from Cons.IH [OF this, of "acc @ piece_of c"] stream_chunk_pair [of c acc s]
  show ?case by simp
qed

lemma consume_after_user:
  assumes "messages s = pre @ [m]" and "role m \<noteq> Assistant"
  shows "messages (snd (consume cs ([], s))) =
           pre @ [m] @
           (if cs = [] then []
            else [\<lparr>role = Assistant,
                   content = (if length cs = 1 \<and> concat (map piece_of cs) = [] then '' ''
                              else concat (map piece_of cs))\<rparr>])"
proof (cases cs)
  case Nil
  then show ?thesis using assms by simp
next
  case (Cons c cs')
  have "messages (snd (stream_chunk c ([], s))) =
          (pre @ [m]) @
            [\<lparr>role = Assistant, content = (if piece_of c = [] then '' '' else piece_of c)\<rparr>]"
    using stream_chunk_append [OF assms, of c "[]"] by simp
  from consume_replace [OF this, of cs' "piece_of c"] stream_chunk_pair [of c "[]" s] Cons
  show ?thesis
    by (cases cs') simp_all
qed

text \<open>
  C2, as the code has it. After an accepted send, while the chunks \<open>cs\<close> of the
  stream are consumed, the accumulator is the concatenation of their deltas in arrival
  order, and the transcript is the old transcript, the user message, and then: nothing if
  no chunk has arrived; otherwise exactly one assistant entry, written by the first chunk
  and overwritten in place by every later one, whose content is that concatenation, except
  that a single chunk with an empty delta leaves the one-space placeholder. For the input
  "Hello" and the deltas "Hi", " there", "!" the transcript ends with the single assistant
  entry "Hi there!".
\<close>

theorem deltas_one_bubble:
  assumes "trim (input s) \<noteq> []" and "chat_create_available (engine s)" and "\<not> loading s"
  shows "messages (snd (consume cs ([], snd (handleSend_start s)))) =
           messages s @ [\<lparr>role = User, content = input s\<rparr>] @
           (if cs = [] then []
            else [\<lparr>role = Assistant,
                   content = (if length cs = 1 \<and> concat (map piece_of cs) = [] then '' ''
                              else concat (map piece_of cs))\<rparr>])
       \<and> fst (consume cs ([], snd (handleSend_start s))) = concat (map piece_of cs)"
proof -
  have "messages (snd (handleSend_start s)) = messages s @ [\<lparr>role = User, content = input s\<rparr>]"
    using assms capability_needs_engine [of "engine s"]
    by (simp add: handleSend_start_def Let_def)
  then show ?thesis
    using consume_after_user [of "snd (handleSend_start s)" "messages s"
        "\<lparr>role = User, content = input s\<rparr>" cs]
    by (simp add: consume_accum)
qed

theorem deltas_one_bubble_witness:
  "trim (input ready_hello) \<noteq> [] \<and> chat_create_available (engine ready_hello)
   \<and> \<not> loading ready_hello
   \<and> messages (snd (consume hi_there_chunks ([], snd (handleSend_start ready_hello)))) =
       [system_message, \<lparr>role = User, content = ''Hello''\<rparr>,
        \<lparr>role = Assistant, content = ''Hi there!''\<rparr>]"
proof -
  have h: "trim (input ready_hello) \<noteq> []" "chat_create_available (engine ready_hello)"
    "\<not> loading ready_hello"
    by (simp_all add: example_defs chat_create_available_def trim_def is_ws_def)
  have m: "messages ready_hello = [system_message]" "input ready_hello = ''Hello''"
    by (simp_all add: ready_hello_def initial_state_def)
  from deltas_one_bubble [OF h, of hi_there_chunks] h m show ?thesis
    by (simp add: hi_there_chunks_def)
qed

text \<open>
  The sentence of the specification, read for every finite stream, fails on two of
  them: one chunk with an empty delta leaves the
  assistant entry " " although the deltas concatenate to the empty string, and a stream
  with no chunk leaves no assistant entry at all.
\<close>

theorem deltas_one_bubble_counterexample:
  "concat (map piece_of [Chunk (Some [])]) = []
   \<and> messages (snd (consume [Chunk (Some [])] ([], hello_sent))) =
       [system_message, \<lparr>role = User, content = ''Hello''\<rparr>, \<lparr>role = Assistant, content = '' ''\<rparr>]
   \<and> messages (snd (consume [] ([], hello_sent))) =
       [system_message, \<lparr>role = User, content = ''Hello''\<rparr>]"
  by (simp add: hello_sent_value stream_chunk_def apply_delta_def Let_def)

section \<open>The system message\<close>

lemma one_leading_system_append:
  "one_leading_system ms \<Longrightarrow> role m \<noteq> System \<Longrightarrow> one_leading_system (ms @ [m])"
  by (cases ms) (simp_all add: one_leading_system_def)

lemma one_leading_system_delta:
  assumes "one_leading_system ms"
  shows "one_leading_system (apply_delta acc ms)"
proof (cases "length ms > 0 \<and> role (last ms) = Assistant")
  case False
  then show ?thesis
    using assms by (auto simp add: apply_delta_def one_leading_system_append)
next
  case True
  obtain m rest where ms: "ms = m # rest" and m: "m = system_message"
    and rest: "filter (\<lambda>x. role x = System) rest = []"
    using assms by (cases ms) (simp_all add: one_leading_system_def)
  have "rest \<noteq> []"
    using True ms m by (auto simp add: system_message_def)
  then have "butlast ms = m # butlast rest"
    using ms by simp
  moreover have "filter (\<lambda>x. role x = System) (butlast rest) = []"
    using rest by (metis filter_empty_conv in_set_butlastD)
  ultimately show ?thesis
    using True m by (simp add: apply_delta_def one_leading_system_def)
qed

lemma system_kept_by_start:
  "one_leading_system (messages s) \<Longrightarrow>
   one_leading_system (messages (snd (handleSend_start s)))"
  by (simp add: handleSend_start_def Let_def one_leading_system_append unavailable_message_def)

lemma system_kept_by_chunk:
  "one_leading_system (messages (snd p)) \<Longrightarrow>
   one_leading_system (messages (snd (stream_chunk c p)))"
  by (simp add: stream_chunk_def Let_def one_leading_system_delta)

lemma system_kept_by_end:
  "one_leading_system (messages s) \<Longrightarrow>
   one_leading_system (messages (handleSend_end outcome s))"
  by (simp add: handleSend_end_def Let_def one_leading_system_append error_message_def
      split: option.splits)

lemma messages_untouched:
  "messages (initProgressCallback L r s) = messages s"
  "messages (engine_created e s) = messages s"
  "messages (init_failed t s) = messages s"
  "messages (teardown s) = messages s"
  "messages (handleCancel s) = messages s"
  by (simp_all add: initProgressCallback_def engine_created_def init_failed_def teardown_def
      handleCancel_def Let_def split: option.splits)

lemma system_kept_by_step:
  assumes "one_leading_system (messages (app m))"
  shows "one_leading_system (messages (app (step L m ev)))"
proof (cases ev)
  case Send
  then show ?thesis
    using system_kept_by_start [OF assms]
    by (auto simp add: step_def split: prod.splits send_result.splits)
next
  case (StreamChunk k c)
  then show ?thesis
    using assms system_kept_by_chunk [of "(acc, app m)" c for acc]
    by (simp add: step_def split: option.splits)
next
  case (StreamEnd k outcome)
  then show ?thesis
    using assms by (simp add: step_def system_kept_by_end split: option.splits)
qed (use assms in \<open>simp_all add: step_def messages_untouched\<close>)

lemma system_kept_by_steps:
  "one_leading_system (messages (app m)) \<Longrightarrow>
   one_leading_system (messages (app (foldl (step L) m evs)))"
  by (induction evs arbitrary: m) (simp_all add: system_kept_by_step)

text \<open>
  C9. Whatever events the component has gone through (progress reports, engine creation
  or failure, typing, sends, chunks and endings of any stream in any interleaving,
  cancels, teardown), its transcript starts with the system prompt it was created with
  and holds no second system message. The initial transcript is that one message, and the
  operations that write the transcript (the append of the user message, of the
  unavailability message and of an error message, and the write of a delta) each keep
  the property.
\<close>

theorem transcript_one_system_message:
  "one_leading_system (messages (app (run L evs)))
 \<and> messages (initial_state L) = [system_message]
 \<and> (one_leading_system (messages s) \<longrightarrow>
      one_leading_system (messages (snd (handleSend_start s)))
    \<and> one_leading_system (messages (snd (stream_chunk c (acc, s))))
    \<and> one_leading_system (messages (handleSend_end outcome s)))"
proof -
  have "one_leading_system (messages (app (run L evs)))"
    unfolding run_def
    by (rule system_kept_by_steps) (simp add: initial_state_def one_leading_system_def)
  then show ?thesis
    using system_kept_by_chunk [of "(acc, s)" c]
    by (simp add: system_kept_by_start system_kept_by_end initial_state_def)
qed

theorem transcript_one_system_message_witness:
  "messages (app idle_example) =
     [system_message, \<lparr>role = User, content = ''Hello''\<rparr>, \<lparr>role = Assistant, content = ''Hi''\<rparr>]
   \<and> one_leading_system (messages (app idle_example))
   \<and> one_leading_system (messages hello_sent)
   \<and> one_leading_system (messages (handleSend_end (Some type_error) hello_sent))"
proof -
  note kept = transcript_one_system_message
    [of App_jsx "[EngineCreated full_engine, InputChange ''Hello'', Send,
                  StreamChunk 0 (Chunk (Some ''Hi'')), StreamEnd 0 None, InputChange ''More'']"
        hello_sent "Chunk None" "[]" "Some type_error"]
  have h: "one_leading_system (messages hello_sent)"
    by (simp add: hello_sent_value one_leading_system_def system_message_def)
  have a: "one_leading_system (messages (app idle_example))"
    using kept by (simp add: idle_example_def)
  have b: "one_leading_system (messages (handleSend_end (Some type_error) hello_sent))"
    using kept h by simp
  have c: "messages (app idle_example) =
     [system_message, \<lparr>role = User, content = ''Hello''\<rparr>, \<lparr>role = Assistant, content = ''Hi''\<rparr>]"
    by (simp add: idle_example_value)
  from a b c h show ?thesis
    by blast
qed

section \<open>Sending while a generation is running\<close>

text \<open>
  C1, as the code has it. While a generation is running (\<open>loading\<close> is true) a send is
  turned away by the guard: nothing changes, the running stream's controller is not
  aborted and no new generation starts. A send is accepted only when no generation is
  running; it then aborts the controller that \<^verbatim>\<open>abortRef\<close> still holds, if any (the one
  of the previous generation), allocates a fresh one, sets \<open>loading\<close> and starts a
  generation whose accumulator is empty.
\<close>

theorem send_while_generating:
  "(loading (app m) \<longrightarrow> step L m Send = m \<and> fst (handleSend_start (app m)) = Rejected)
 \<and> (\<not> loading (app m) \<and> trim (input (app m)) \<noteq> [] \<and> chat_create_available (engine (app m)) \<longrightarrow>
      tasks (step L m Send) = tasks m @ [Some []]
    \<and> loading (app (step L m Send))
    \<and> controllers (app (step L m Send)) =
        (case abortRef (app m) of None \<Rightarrow> controllers (app m)
         | Some k \<Rightarrow> (controllers (app m))[k := True]) @ [False]
    \<and> abortRef (app (step L m Send)) = Some (length (controllers (app m))))"
  using capability_needs_engine [of "engine (app m)"]
  by (auto simp add: step_def handleSend_start_def Let_def abort_def split: option.splits)

theorem send_while_generating_witness:
  "loading (app generating_example)
   \<and> step App_jsx generating_example Send = generating_example
   \<and> \<not> loading (app idle_example) \<and> trim (input (app idle_example)) \<noteq> []
   \<and> chat_create_available (engine (app idle_example))
   \<and> tasks (step App_jsx idle_example Send) = [None, Some []]
   \<and> controllers (app (step App_jsx idle_example Send)) = [True, False]
   \<and> abortRef (app (step App_jsx idle_example Send)) = Some 1"
proof -
  have g: "loading (app generating_example)"
    by (simp add: generating_example_value)
  have i: "\<not> loading (app idle_example)" "trim (input (app idle_example)) \<noteq> []"
    "chat_create_available (engine (app idle_example))"
    by (simp_all add: idle_example_value full_engine_def chat_create_available_def
        trim_def is_ws_def)
  have v: "tasks idle_example = [None]" "abortRef (app idle_example) = Some 0"
    "controllers (app idle_example) = [False]"
    by (simp_all add: idle_example_value)
  from send_while_generating [of generating_example App_jsx]
    send_while_generating [of idle_example App_jsx] g i v
  show ?thesis
    by simp
qed

text \<open>
  The sentence of the specification fails in the state reached by creating the engine, typing "Hello",
  sending, and typing "again" while the answer is streaming: the second send changes
  nothing. The first generation's controller is still not aborted and its task is still
  the only one.
\<close>

theorem send_while_generating_counterexample:
  "loading (app generating_example) \<and> trim (input (app generating_example)) \<noteq> []
   \<and> fst (handleSend_start (app generating_example)) = Rejected
   \<and> controllers (app (step App_jsx generating_example Send)) = [False]
   \<and> tasks (step App_jsx generating_example Send) = [Some []]
   \<and> messages (app (step App_jsx generating_example Send)) =
       [system_message, \<lparr>role = User, content = ''Hello''\<rparr>]"
  by (simp add: generating_example_value step_def handleSend_start_def trim_def is_ws_def)

end
